theory Spec2Isabelle
  imports Main "HOL-Library.Monad_Syntax" "HOL-Library.Word"
begin

section \<open>Setting values and setting nodes\<close>

text \<open>
  The settings handling of \<^verbatim>\<open>xbmc/addons/Addon.cpp\<close> works on three collaborators whose
  code is outside that file: the typed setting node (\<^verbatim>\<open>CSetting\<close> and its four subclasses),
  the per-add-on store (\<^verbatim>\<open>CAddonSettings\<close>) and the XML document (\<^verbatim>\<open>CXBMCTinyXML\<close>).
  They are modelled from the specification; every such definition says so.  The functions of
  \<^verbatim>\<open>CAddon\<close> itself are translated from the source, statement by statement.

  A \<^verbatim>\<open>double\<close> is never computed with here, it is only stored and handed back, so the
  payload of a number setting is the type parameter \<open>'n\<close>.  An \<^verbatim>\<open>int\<close> is a 32-bit word, read
  as signed by \<open>sint\<close>.

  Every function of \<^verbatim>\<open>CAddon\<close> takes an instance id and hands it on to the functions it
  calls; only \<^verbatim>\<open>SaveSettings\<close> uses it, for the notification of the add-on manager.  The
  model has the parameter there and nowhere else.
\<close>

text \<open>
  The types a setting can have, \<^verbatim>\<open>SettingType::Boolean\<close> and so on, for the four setting
  classes that the accessors of \<^verbatim>\<open>CAddon\<close> are instantiated with.
\<close>

datatype SettingType =
    SettingType_Boolean
  | SettingType_Integer
  | SettingType_Number
  | SettingType_String

text \<open>
  \<^verbatim>\<open>TSetting::Value\<close> for the four instantiations of the accessor templates
  (\<^verbatim>\<open>CSettingBool\<close>, \<^verbatim>\<open>CSettingInt\<close>, \<^verbatim>\<open>CSettingNumber\<close>, \<^verbatim>\<open>CSettingString\<close>): the
  constructor is the template argument, the payload is the C++ value.
\<close>

datatype 'n Value =
    BoolValue bool
  | IntValue "32 word"
  | NumberValue 'n
  | StringValue string

text \<open>\<^verbatim>\<open>TSetting::Type()\<close> of the instantiation a value belongs to.\<close>

fun Type :: "'n Value \<Rightarrow> SettingType" where
  "Type (BoolValue b) = SettingType_Boolean"
| "Type (IntValue i) = SettingType_Integer"
| "Type (NumberValue d) = SettingType_Number"
| "Type (StringValue t) = SettingType_String"

text \<open>
  Modelled from the spec: the class \<^verbatim>\<open>CSetting\<close> is not in the source file.  The spec's
  Setting is "a typed value (bool/int/number/string) with default, current value"; the node's
  type is the type of its current value.
\<close>

record 'n CSetting =
  m_default :: "'n Value"
  m_value :: "'n Value"

text \<open>
  Modelled from the spec: \<^verbatim>\<open>CSetting::GetType\<close>, the type of the spec's "typed value".
\<close>

definition GetType :: "'n CSetting \<Rightarrow> SettingType" where
  "GetType setting = Type (m_value setting)"

text \<open>
  Modelled from the spec: \<^verbatim>\<open>TSetting::GetValue\<close>, the spec's "current value".
\<close>

definition GetValue :: "'n CSetting \<Rightarrow> 'n Value" where
  "GetValue setting = m_value setting"

text \<open>
  Modelled from the spec: \<^verbatim>\<open>TSetting::SetValue\<close> is not in the source file.  The spec gives a
  setting a current value and names no way for an assignment of the node's own type to fail,
  so the assignment stores the value and reports success.
\<close>

definition SetValue :: "'n CSetting \<Rightarrow> 'n Value \<Rightarrow> bool \<times> 'n CSetting" where
  "SetValue setting v = (True, setting\<lparr>m_value := v\<rparr>)"

section \<open>XML documents and files\<close>

text \<open>
  Modelled from the spec: \<^verbatim>\<open>CXBMCTinyXML\<close> is not in the source file.  A document is reduced
  to what its readers take from it: whether it has a root element, the setting definitions
  that \<^verbatim>\<open>Initialize\<close> parses from it (key and default; \<open>None\<close> when it is not a well-formed
  schema) and the values that \<^verbatim>\<open>Load\<close> reads from it (\<open>None\<close> when it holds no readable
  values).
\<close>

datatype 'n CXBMCTinyXML =
    NoRoot
  | Root "(string \<times> 'n Value) list option" "(string \<times> 'n Value) list option"

text \<open>
  Modelled from the spec: \<^verbatim>\<open>doc.RootElement() != nullptr\<close>.
\<close>

fun RootElement :: "'n CXBMCTinyXML \<Rightarrow> bool" where
  "RootElement NoRoot = False"
| "RootElement (Root ds vs) = True"

text \<open>
  Modelled from the spec: the setting definitions that the store's \<^verbatim>\<open>Initialize\<close> finds in a
  document.
\<close>

fun definitions :: "'n CXBMCTinyXML \<Rightarrow> (string \<times> 'n Value) list option" where
  "definitions NoRoot = None"
| "definitions (Root ds vs) = ds"

text \<open>
  Modelled from the spec: the values that the store's \<^verbatim>\<open>Load\<close> finds in a document.
\<close>

fun values_of :: "'n CXBMCTinyXML \<Rightarrow> (string \<times> 'n Value) list option" where
  "values_of NoRoot = None"
| "values_of (Root ds vs) = vs"

text \<open>
  Modelled from the spec: a file on disk is absent, or "present but unparsable", or present
  with a document.
\<close>

datatype 'n File = NoFile | Unparsable | Xml "'n CXBMCTinyXML"

text \<open>
  Modelled from the spec: \<^verbatim>\<open>CXBMCTinyXML::LoadFile\<close> reads and parses a file; it fails on a
  file that is absent and on one that cannot be parsed.
\<close>

fun LoadFile :: "'n File \<Rightarrow> 'n CXBMCTinyXML option" where
  "LoadFile NoFile = None"
| "LoadFile Unparsable = None"
| "LoadFile (Xml doc) = Some doc"

text \<open>
  Modelled from the spec: \<^verbatim>\<open>CFile::Exists\<close>.
\<close>

fun Exists :: "'n File \<Rightarrow> bool" where
  "Exists NoFile = False"
| "Exists Unparsable = True"
| "Exists (Xml doc) = True"

section \<open>The settings store\<close>

text \<open>
  Modelled from the spec: the class \<^verbatim>\<open>CAddonSettings\<close> is not in the source file.  The spec's
  SettingsDefinition is a "keyed mapping from setting-key to a typed Setting node" with
  "lifecycle states {Uninitialized, Initialized, Loaded}".  The mapping is an association
  list read with \<open>map_of\<close>.
\<close>

datatype Lifecycle = Uninitialized | Initialized | Loaded

text \<open>
  Modelled from the spec: the members of \<^verbatim>\<open>CAddonSettings\<close>, the lifecycle state and the
  settings by key.
\<close>

record 'n CAddonSettings =
  m_state :: Lifecycle
  m_nodes :: "(string \<times> 'n CSetting) list"

text \<open>
  Modelled from the spec: the store that \<^verbatim>\<open>std::make_shared<CAddonSettings>\<close> constructs,
  "created lazily on first access", before any schema was parsed into it.
\<close>

definition new_CAddonSettings :: "'n CAddonSettings" where
  "new_CAddonSettings = \<lparr>m_state = Uninitialized, m_nodes = []\<rparr>"

text \<open>
  Modelled from the spec: the state query \<^verbatim>\<open>IsInitialized()\<close>; a loaded store is initialized.
\<close>

definition IsInitialized :: "'n CAddonSettings \<Rightarrow> bool" where
  "IsInitialized st = (m_state st \<noteq> Uninitialized)"

text \<open>
  Modelled from the spec: the state query \<^verbatim>\<open>IsLoaded()\<close>.
\<close>

definition IsLoaded :: "'n CAddonSettings \<Rightarrow> bool" where
  "IsLoaded st = (m_state st = Loaded)"

text \<open>
  Modelled from the spec: \<^verbatim>\<open>SetLoaded()\<close>, the "one-way marker set once a load pass
  completes".  "A SettingsDefinition is never Loaded without first being Initialized", so
  the marker does nothing on an uninitialized store.
\<close>

definition SetLoaded :: "'n CAddonSettings \<Rightarrow> 'n CAddonSettings" where
  "SetLoaded st = (if IsInitialized st then st\<lparr>m_state := Loaded\<rparr> else st)"

text \<open>
  Modelled from the spec: \<^verbatim>\<open>Uninitialize()\<close>, by which a forced load "first discards" the
  schema.
\<close>

definition Uninitialize :: "'n CAddonSettings \<Rightarrow> 'n CAddonSettings" where
  "Uninitialize st = \<lparr>m_state = Uninitialized, m_nodes = []\<rparr>"

text \<open>
  Modelled from the spec: \<^verbatim>\<open>Initialize(schemaDocument)\<close> "parses a schema document into typed
  Setting nodes; idempotent only when not already initialized unless caller forces reset
  first. Fails (returns false) on malformed schema."  An initialized store refuses a second
  initialization; a failed call leaves the store as it was.
\<close>

definition Initialize :: "'n CAddonSettings \<Rightarrow> 'n CXBMCTinyXML \<Rightarrow> bool \<times> 'n CAddonSettings" where
  "Initialize st doc =
     (if IsInitialized st then (False, st)
      else case definitions doc of
             None \<Rightarrow> (False, st)
           | Some ds \<Rightarrow>
               (True, \<lparr>m_state = Initialized,
                       m_nodes = map (\<lambda>(k, d). (k, \<lparr>m_default = d, m_value = d\<rparr>)) ds\<rparr>))"

text \<open>
  Modelled from the spec: one node in the pass of \<^verbatim>\<open>Load\<close> over the store.  A value found
  under the node's key is applied when it has the node's type; a node whose key has no value
  keeps what it holds.
\<close>

definition apply_value :: "(string \<times> 'n Value) list \<Rightarrow> string \<times> 'n CSetting \<Rightarrow> string \<times> 'n CSetting" where
  "apply_value vs node =
     (case map_of vs (fst node) of
        None \<Rightarrow> node
      | Some v \<Rightarrow> if Type v = GetType (snd node) then (fst node, (snd node)\<lparr>m_value := v\<rparr>) else node)"

text \<open>
  Modelled from the spec: \<^verbatim>\<open>Load(valuesDocument)\<close> "applies values found in a document onto
  existing schema nodes by key; keys not present in the schema are ignored (schema is
  authoritative); unset keys keep their default. Fails if not yet initialized."  A completed
  pass marks the store loaded; a failed call leaves the store as it was.
\<close>

definition Load :: "'n CAddonSettings \<Rightarrow> 'n CXBMCTinyXML \<Rightarrow> bool \<times> 'n CAddonSettings" where
  "Load st doc =
     (if \<not> IsInitialized st then (False, st)
      else case values_of doc of
             None \<Rightarrow> (False, st)
           | Some vs \<Rightarrow> (True, \<lparr>m_state = Loaded, m_nodes = map (apply_value vs) (m_nodes st)\<rparr>))"

text \<open>
  Modelled from the spec: \<^verbatim>\<open>Save(outDocument)\<close> "serializes current values into a document
  structure. Fails if not initialized."  Building the XML tree is the document library's
  work and can fail on its own; it is the parameter \<open>toXml\<close>, which gets the keys with their
  current values.
\<close>

definition Save ::
  "((string \<times> 'n Value) list \<Rightarrow> 'n CXBMCTinyXML option) \<Rightarrow> 'n CAddonSettings \<Rightarrow> 'n CXBMCTinyXML option" where
  "Save toXml st =
     (if \<not> IsInitialized st then None
      else toXml (map (\<lambda>(k, setting). (k, m_value setting)) (m_nodes st)))"

text \<open>
  Modelled from the spec: \<^verbatim>\<open>SetDefaults()\<close> "resets every node's value to its schema
  default".
\<close>

definition SetDefaults :: "'n CAddonSettings \<Rightarrow> 'n CAddonSettings" where
  "SetDefaults st =
     st\<lparr>m_nodes := map (\<lambda>(k, setting). (k, setting\<lparr>m_value := m_default setting\<rparr>)) (m_nodes st)\<rparr>"

text \<open>
  Modelled from the spec: the store's \<^verbatim>\<open>GetSetting(key)\<close>, "exact-key lookup; null if
  absent".
\<close>

definition CAddonSettings_GetSetting :: "'n CAddonSettings \<Rightarrow> string \<Rightarrow> 'n CSetting option" where
  "CAddonSettings_GetSetting st key = map_of (m_nodes st) key"

text \<open>
  Modelled from the spec: the store's \<^verbatim>\<open>HasSettings()\<close>, "true iff schema has \<ge>1 defined
  key".
\<close>

definition CAddonSettings_HasSettings :: "'n CAddonSettings \<Rightarrow> bool" where
  "CAddonSettings_HasSettings st = (m_nodes st \<noteq> [])"

text \<open>
  Modelled from the spec: \<^verbatim>\<open>AddSetting(key, value)\<close> "defines a previously-unknown key at
  runtime with an inferred type from the given value's static type; returns null if the key
  already exists with a conflicting type or cannot be created."  The spec does not say when
  a key cannot be created, so that is the parameter \<open>canCreate\<close>, which is asked with the store,
  the key and the value.  A new node has the value as its default and as its current value; a
  call that returns null leaves the store as it was.
\<close>

definition AddSetting ::
  "('n CAddonSettings \<Rightarrow> string \<Rightarrow> 'n Value \<Rightarrow> bool) \<Rightarrow>
   'n CAddonSettings \<Rightarrow> string \<Rightarrow> 'n Value \<Rightarrow> 'n CSetting option \<times> 'n CAddonSettings" where
  "AddSetting canCreate st key v =
     (case CAddonSettings_GetSetting st key of
        Some setting \<Rightarrow> (if GetType setting = Type v then Some setting else None, st)
      | None \<Rightarrow>
          if canCreate st key v
          then (let setting = \<lparr>m_default = v, m_value = v\<rparr>
                in (Some setting, st\<lparr>m_nodes := m_nodes st @ [(key, setting)]\<rparr>))
          else (None, st))"

text \<open>
  A setting is held through a shared pointer, so an assignment through the pointer changes
  the node inside the store.  In the model the changed node is written back in the place
  that the lookup of its key finds, the first one with that key.
\<close>

fun put_node :: "string \<Rightarrow> 'n CSetting \<Rightarrow> (string \<times> 'n CSetting) list \<Rightarrow> (string \<times> 'n CSetting) list" where
  "put_node key setting [] = []"
| "put_node key setting ((k, old) # rest) =
     (if k = key then (k, setting) # rest else (k, old) # put_node key setting rest)"

text \<open>The store after an assignment through the pointer to the setting of \<open>key\<close>.\<close>

definition put_setting :: "'n CAddonSettings \<Rightarrow> string \<Rightarrow> 'n CSetting \<Rightarrow> 'n CAddonSettings" where
  "put_setting st key setting = st\<lparr>m_nodes := put_node key setting (m_nodes st)\<rparr>"

section \<open>The add-on and its surroundings\<close>

text \<open>
  The two files the add-on works on, the schema at \<^verbatim>\<open>Path()/resources/settings.xml\<close> and
  the user values at \<^verbatim>\<open>m_userSettingsPath\<close>; the directory of the latter and its parent, by
  the names \<^verbatim>\<open>SaveSettings\<close> gives them; and the messages written to the error log.
\<close>

datatype FileId = DefinitionFile | UserSettingsFile

datatype DirId = strRoot | strAddon

datatype LogMessage =
    UnableToLoad
  | FailedToInitialize
  | FailedToLoadFrom
  | FailedToLoadUserSettings
  | FailedToSave
  | FailedToAddUndefined string

text \<open>
  What the add-on does to its surroundings, in the order it does it: the file system calls,
  the error log and the two notifications of \<^verbatim>\<open>SaveSettings\<close>.
\<close>

datatype Event =
    XmlLoadFile FileId
  | FileExists FileId
  | DirectoryExists DirId
  | DirectoryCreate DirId
  | XmlSaveFile FileId
  | LogError LogMessage
  | AddonMgr_ReloadSettings string "32 word"
  | XBPython_OnSettingsChanged string

text \<open>
  The members of \<^verbatim>\<open>CAddon\<close> that the settings handling uses.  \<open>m_settings\<close> is the shared
  pointer: \<open>None\<close> is \<^verbatim>\<open>nullptr\<close>.
\<close>

record 'n CAddon =
  ID :: string
  m_settings :: "'n CAddonSettings option"
  m_loadSettingsFailed :: bool
  m_hasUserSettings :: bool

text \<open>
  The add-on together with the files it reads and writes: the schema at
  \<^verbatim>\<open>Path()/resources/settings.xml\<close>, the user values at \<^verbatim>\<open>m_userSettingsPath\<close>, the two
  directories above the latter, and the trace of events so far.
\<close>

record 'n World = "'n CAddon" +
  definitionFile :: "'n File"
  userSettingsFile :: "'n File"
  rootDirectory :: bool
  addonDirectory :: bool
  trace :: "Event list"

definition emit :: "Event \<Rightarrow> 'n World \<Rightarrow> 'n World" where
  "emit e s = s\<lparr>trace := trace s @ [e]\<rparr>"

definition SettingsInitialized :: "'n World \<Rightarrow> bool" where
  "SettingsInitialized s =
     (case m_settings s of None \<Rightarrow> False | Some st \<Rightarrow> IsInitialized st)"

definition SettingsLoaded :: "'n World \<Rightarrow> bool" where
  "SettingsLoaded s =
     (case m_settings s of None \<Rightarrow> False | Some st \<Rightarrow> IsLoaded st)"

text \<open>
  The four functions below call each other: \<^verbatim>\<open>GetSettings\<close> creates the store on first use
  and then calls \<^verbatim>\<open>LoadSettings\<close>, which calls \<^verbatim>\<open>GetSettings\<close> and \<^verbatim>\<open>LoadUserSettings\<close>, which
  calls \<^verbatim>\<open>SettingsFromXML\<close>, which calls \<^verbatim>\<open>GetSettings\<close>.  A result \<open>None\<close> is a call through a
  null \<open>m_settings\<close>; \<open>GetSettings\<close> returns the world in which \<open>m_settings\<close> is the pointer it
  returns.
\<close>

function LoadSettings :: "'n World \<Rightarrow> bool \<Rightarrow> bool \<Rightarrow> (bool \<times> 'n World) option"
  and GetSettings :: "'n World \<Rightarrow> 'n World option"
  and LoadUserSettings :: "'n World \<Rightarrow> (bool \<times> 'n World) option"
  and SettingsFromXML :: "'n World \<Rightarrow> 'n CXBMCTinyXML \<Rightarrow> bool \<Rightarrow> (bool \<times> 'n World) option"
where
  "LoadSettings s bForce loadUserSettings =
     (if SettingsInitialized s \<and> \<not> bForce then Some (True, s)
      else if m_loadSettingsFailed s then Some (False, s)
      else do {
        let s1 = s\<lparr>m_loadSettingsFailed := True\<rparr>;
        s2 \<leftarrow> (if SettingsInitialized s1 \<and> bForce
               then do {
                 g \<leftarrow> GetSettings s1;
                 st \<leftarrow> m_settings g;
                 Some (g\<lparr>m_settings := Some (Uninitialize st)\<rparr>) }
               else Some s1);
        let s3 = emit (XmlLoadFile DefinitionFile) s2;
        case LoadFile (definitionFile s3) of
          None \<Rightarrow>
            (let s4 = emit (FileExists DefinitionFile) s3
             in if Exists (definitionFile s4)
                then Some (False, emit (LogError UnableToLoad) s4)
                else Some (False, s4))
        | Some addonSettingsDefinitionDoc \<Rightarrow> do {
            g \<leftarrow> GetSettings s3;
            st \<leftarrow> m_settings g;
            let (ok, st') = Initialize st addonSettingsDefinitionDoc;
            let s4 = g\<lparr>m_settings := Some st'\<rparr>;
            if \<not> ok then Some (False, emit (LogError FailedToInitialize) s4)
            else do {
              let s5 = s4\<lparr>m_loadSettingsFailed := False\<rparr>;
              s6 \<leftarrow> (if loadUserSettings then map_option snd (LoadUserSettings s5) else Some s5);
              Some (True, s6) } } })"
| "GetSettings s =
     (if m_settings s = None
      then map_option snd (LoadSettings (s\<lparr>m_settings := Some new_CAddonSettings\<rparr>) False True)
      else Some s)"
| "LoadUserSettings s =
     (if \<not> SettingsInitialized s then Some (False, s)
      else
        let s1 = s\<lparr>m_hasUserSettings := False\<rparr>;
            s2 = emit (FileExists UserSettingsFile) s1
        in if \<not> Exists (userSettingsFile s2)
           then do {
             g \<leftarrow> GetSettings s2;
             st \<leftarrow> m_settings g;
             Some (True, g\<lparr>m_settings := Some (SetLoaded st)\<rparr>) }
           else
             let s3 = emit (XmlLoadFile UserSettingsFile) s2
             in case LoadFile (userSettingsFile s3) of
                  None \<Rightarrow> Some (False, emit (LogError FailedToLoadFrom) s3)
                | Some doc \<Rightarrow> SettingsFromXML s3 doc False)"
| "SettingsFromXML s doc loadDefaults =
     (if \<not> RootElement doc then Some (False, s)
      else do {
        (ok, s1) \<leftarrow> (if \<not> SettingsInitialized s
                     then do {
                       g \<leftarrow> GetSettings s;
                       st \<leftarrow> m_settings g;
                       let (ok, st') = Initialize st doc;
                       Some (ok, g\<lparr>m_settings := Some st'\<rparr>) }
                     else Some (True, s));
        if \<not> ok then Some (False, emit (LogError FailedToInitialize) s1)
        else do {
          s2 \<leftarrow> (if loadDefaults
                 then do {
                   g \<leftarrow> GetSettings s1;
                   st \<leftarrow> m_settings g;
                   Some (g\<lparr>m_settings := Some (SetDefaults st)\<rparr>) }
                 else Some s1);
          g \<leftarrow> GetSettings s2;
          st \<leftarrow> m_settings g;
          let (loaded, st') = Load st doc;
          let s3 = g\<lparr>m_settings := Some st'\<rparr>;
          if \<not> loaded then Some (False, emit (LogError FailedToLoadUserSettings) s3)
          else Some (True, s3\<lparr>m_hasUserSettings := True\<rparr>) } })"
  by pat_completeness auto

termination
  apply (relation "measure (\<lambda>x. case x of
      Inl (Inl (s, f, l)) \<Rightarrow> (if m_settings s = None then 4 else 0) + 3
    | Inl (Inr s) \<Rightarrow> (if m_settings s = None then 4 else 0)
    | Inr (Inl s) \<Rightarrow> (if m_settings s = None then 4 else 0) + 2
    | Inr (Inr (s, d, l)) \<Rightarrow> (if m_settings s = None then 4 else 0) + 1)")
  apply (auto simp: bind_eq_Some_conv Let_def case_prod_beta emit_def split: if_splits)
  done

declare LoadSettings.simps [simp del] GetSettings.simps [simp del]
  LoadUserSettings.simps [simp del] SettingsFromXML.simps [simp del]

text \<open>
  \<^verbatim>\<open>LoadSettings(false, true, id) && m_settings->HasSettings()\<close>: the right operand is
  evaluated only when the left one is true, and it goes through \<open>m_settings\<close> directly.
\<close>

definition HasSettings :: "'n World \<Rightarrow> (bool \<times> 'n World) option" where
  "HasSettings s = do {
     (ok, s1) \<leftarrow> LoadSettings s False True;
     if ok then do {
       st \<leftarrow> m_settings s1;
       Some (CAddonSettings_HasSettings st, s1) }
     else Some (False, s1) }"

definition CanHaveAddonOrInstanceSettings :: "'n World \<Rightarrow> (bool \<times> 'n World) option" where
  "CanHaveAddonOrInstanceSettings s = HasSettings s"

definition HasUserSettings :: "'n World \<Rightarrow> (bool \<times> 'n World) option" where
  "HasUserSettings s = do {
     (ok, s1) \<leftarrow> LoadSettings s False True;
     if \<not> ok then Some (False, s1)
     else Some (SettingsLoaded s1 \<and> m_hasUserSettings s1, s1) }"

definition ReloadSettings :: "'n World \<Rightarrow> (bool \<times> 'n World) option" where
  "ReloadSettings s = LoadSettings s True True"

definition ResetSettings :: "'n World \<Rightarrow> 'n World" where
  "ResetSettings s = s\<lparr>m_settings := None\<rparr>"

definition HasSettingsToSave :: "'n World \<Rightarrow> bool" where
  "HasSettingsToSave s = SettingsLoaded s"

text \<open>
  \<^verbatim>\<open>SettingsToXML\<close> fills the document it is given and returns true, or returns false; the
  model returns the filled document, or \<open>None\<close> for false.
\<close>

definition SettingsToXML ::
  "((string \<times> 'n Value) list \<Rightarrow> 'n CXBMCTinyXML option) \<Rightarrow> 'n World \<Rightarrow>
   ('n CXBMCTinyXML option \<times> 'n World) option" where
  "SettingsToXML toXml s =
     (if \<not> SettingsInitialized s then Some (None, s)
      else do {
        st \<leftarrow> m_settings s;
        case Save toXml st of
          None \<Rightarrow> Some (None, emit (LogError FailedToSave) s)
        | Some doc \<Rightarrow> Some (Some doc, s) })"

text \<open>
  \<^verbatim>\<open>SaveSettings\<close>.  The results of \<^verbatim>\<open>CDirectory::Create\<close> and of \<^verbatim>\<open>doc.SaveFile\<close> are not
  looked at by the code; the file system is taken to do what it is asked.  \<open>HAS_PYTHON\<close> is
  the preprocessor symbol, \<open>instanceId\<close> the instance id that is passed on to the add-on manager.
\<close>

definition SaveSettings ::
  "bool \<Rightarrow> ((string \<times> 'n Value) list \<Rightarrow> 'n CXBMCTinyXML option) \<Rightarrow> 'n World \<Rightarrow> 32 word \<Rightarrow>
   'n World option" where
  "SaveSettings HAS_PYTHON toXml s instanceId =
     (if \<not> HasSettingsToSave s then Some s
      else do {
        let s1 = emit (DirectoryExists strRoot) s;
        let s2 = (if \<not> rootDirectory s1
                  then (emit (DirectoryCreate strRoot) s1)\<lparr>rootDirectory := True\<rparr> else s1);
        let s3 = emit (DirectoryExists strAddon) s2;
        let s4 = (if \<not> addonDirectory s3
                  then (emit (DirectoryCreate strAddon) s3)\<lparr>addonDirectory := True\<rparr> else s3);
        (doc, s5) \<leftarrow> SettingsToXML toXml s4;
        let s6 = (case doc of
                    Some d \<Rightarrow> (emit (XmlSaveFile UserSettingsFile) s5)\<lparr>userSettingsFile := Xml d\<rparr>
                  | None \<Rightarrow> s5);
        let s7 = s6\<lparr>m_hasUserSettings := True\<rparr>;
        let s8 = emit (AddonMgr_ReloadSettings (ID s7) instanceId) s7;
        Some (if HAS_PYTHON then emit (XBPython_OnSettingsChanged (ID s8)) s8 else s8) })"

text \<open>
  \<^verbatim>\<open>CAddon::GetSetting\<close>.  \<open>ToString\<close> is \<^verbatim>\<open>CSetting::ToString\<close>, the string form of a
  setting's current value, which the setting classes define.
\<close>

definition GetSetting :: "('n CSetting \<Rightarrow> string) \<Rightarrow> 'n World \<Rightarrow> string \<Rightarrow> (string \<times> 'n World) option" where
  "GetSetting ToString s key =
     (if key = [] then Some ([], s)
      else do {
        (ok, s1) \<leftarrow> LoadSettings s False True;
        if \<not> ok then Some ([], s1)
        else do {
          st \<leftarrow> m_settings s1;
          case CAddonSettings_GetSetting st key of
            Some setting \<Rightarrow> Some (ToString setting, s1)
          | None \<Rightarrow> Some ([], s1) } })"

text \<open>
  The template \<^verbatim>\<open>GetSettingValue<TSetting>\<close>.  \<open>value\<close> is the caller's variable, of type
  \<^verbatim>\<open>TSetting::Value\<close>, so its constructor is the template argument; the result holds the
  returned flag, the variable after the call and the world after the call.
\<close>

definition GetSettingValue :: "'n World \<Rightarrow> string \<Rightarrow> 'n Value \<Rightarrow> (bool \<times> 'n Value \<times> 'n World) option" where
  "GetSettingValue addon key val =
     (if key = [] then Some (False, val, addon)
      else do {
        (has, s1) \<leftarrow> HasSettings addon;
        if \<not> has then Some (False, val, s1)
        else do {
          g \<leftarrow> GetSettings s1;
          st \<leftarrow> m_settings g;
          case CAddonSettings_GetSetting st key of
            None \<Rightarrow> Some (False, val, g)
          | Some setting \<Rightarrow>
              if GetType setting \<noteq> Type val then Some (False, val, g)
              else Some (True, GetValue setting, g) } })"

definition GetSettingBool :: "'n World \<Rightarrow> string \<Rightarrow> bool \<Rightarrow> (bool \<times> bool \<times> 'n World) option" where
  "GetSettingBool s key val =
     map_option (\<lambda>(ok, v, s'). (ok, (case v of BoolValue b \<Rightarrow> b | _ \<Rightarrow> val), s'))
       (GetSettingValue s key (BoolValue val))"

definition GetSettingInt :: "'n World \<Rightarrow> string \<Rightarrow> 32 word \<Rightarrow> (bool \<times> 32 word \<times> 'n World) option" where
  "GetSettingInt s key val =
     map_option (\<lambda>(ok, v, s'). (ok, (case v of IntValue i \<Rightarrow> i | _ \<Rightarrow> val), s'))
       (GetSettingValue s key (IntValue val))"


definition GetSettingString :: "'n World \<Rightarrow> string \<Rightarrow> string \<Rightarrow> (bool \<times> string \<times> 'n World) option" where
  "GetSettingString s key val =
     map_option (\<lambda>(ok, v, s'). (ok, (case v of StringValue t \<Rightarrow> t | _ \<Rightarrow> val), s'))
       (GetSettingValue s key (StringValue val))"

text \<open>
  The template \<^verbatim>\<open>UpdateSettingValue<TSetting>\<close>; the constructor of \<open>val\<close> is the template
  argument.  \<open>setting\<close> points into the store, so \<^verbatim>\<open>SetValue\<close> through it changes the node of
  \<open>key\<close> there.  \<open>canCreate\<close> is the parameter of the store's \<^verbatim>\<open>AddSetting\<close>.
\<close>

definition UpdateSettingValue ::
  "('n CAddonSettings \<Rightarrow> string \<Rightarrow> 'n Value \<Rightarrow> bool) \<Rightarrow>
   'n World \<Rightarrow> string \<Rightarrow> 'n Value \<Rightarrow> (bool \<times> 'n World) option" where
  "UpdateSettingValue canCreate addon key val =
     (if key = [] then Some (False, addon)
      else do {
        (has, s1) \<leftarrow> HasSettings addon;
        if \<not> has then Some (False, s1)
        else do {
          g \<leftarrow> GetSettings s1;
          st \<leftarrow> m_settings g;
          (setting, s2) \<leftarrow>
            (case CAddonSettings_GetSetting st key of
               Some setting \<Rightarrow> Some (Some setting, g)
             | None \<Rightarrow> do {
                 g' \<leftarrow> GetSettings g;
                 st' \<leftarrow> m_settings g';
                 let (added, st'') = AddSetting canCreate st' key val;
                 Some (added, g'\<lparr>m_settings := Some st''\<rparr>) });
          case setting of
            None \<Rightarrow> Some (False, emit (LogError (FailedToAddUndefined key)) s2)
          | Some setting \<Rightarrow>
              if GetType setting \<noteq> Type val then Some (False, s2)
              else
                let (ok, setting') = SetValue setting val
                in Some (ok, s2\<lparr>m_settings := map_option (\<lambda>st. put_setting st key setting') (m_settings s2)\<rparr>) } })"

definition UpdateSettingBool ::
  "('n CAddonSettings \<Rightarrow> string \<Rightarrow> 'n Value \<Rightarrow> bool) \<Rightarrow>
   'n World \<Rightarrow> string \<Rightarrow> bool \<Rightarrow> (bool \<times> 'n World) option" where
  "UpdateSettingBool canCreate s key val = UpdateSettingValue canCreate s key (BoolValue val)"

definition UpdateSettingInt ::
  "('n CAddonSettings \<Rightarrow> string \<Rightarrow> 'n Value \<Rightarrow> bool) \<Rightarrow>
   'n World \<Rightarrow> string \<Rightarrow> 32 word \<Rightarrow> (bool \<times> 'n World) option" where
  "UpdateSettingInt canCreate s key val = UpdateSettingValue canCreate s key (IntValue val)"

definition UpdateSettingNumber ::
  "('n CAddonSettings \<Rightarrow> string \<Rightarrow> 'n Value \<Rightarrow> bool) \<Rightarrow>
   'n World \<Rightarrow> string \<Rightarrow> 'n \<Rightarrow> (bool \<times> 'n World) option" where
  "UpdateSettingNumber canCreate s key val = UpdateSettingValue canCreate s key (NumberValue val)"

definition UpdateSettingString ::
  "('n CAddonSettings \<Rightarrow> string \<Rightarrow> 'n Value \<Rightarrow> bool) \<Rightarrow>
   'n World \<Rightarrow> string \<Rightarrow> string \<Rightarrow> (bool \<times> 'n World) option" where
  "UpdateSettingString canCreate s key val = UpdateSettingValue canCreate s key (StringValue val)"

text \<open>
  The store that a call through \<open>GetSettings\<close> reaches when the failure flag is set: the one
  there is, or the fresh one that \<open>GetSettings\<close> creates.
\<close>

definition settings_or_new :: "'n World \<Rightarrow> 'n CAddonSettings" where
  "settings_or_new s = (case m_settings s of None \<Rightarrow> new_CAddonSettings | Some st \<Rightarrow> st)"

section \<open>Predicates of the statements\<close>

text \<open>Every setting of the store holds its schema default.\<close>

definition at_defaults :: "'n World \<Rightarrow> bool" where
  "at_defaults s =
     (case m_settings s of
        None \<Rightarrow> True
      | Some st \<Rightarrow> list_all (\<lambda>(k, setting). m_value setting = m_default setting) (m_nodes st))"


section \<open>Concrete add-ons\<close>

text \<open>
  Modelled from the spec: the add-on as its constructor leaves it.  The initial values of
  \<open>m_loadSettingsFailed\<close> and \<open>m_hasUserSettings\<close> are in \<^verbatim>\<open>Addon.h\<close>, which is not among the
  sources; the spec's state machine starts at "Absent", with no failed load on record.  The
  arguments are the add-on id and the two files found on disk.
\<close>

definition new_CAddon :: "string \<Rightarrow> 'n File \<Rightarrow> 'n File \<Rightarrow> 'n World" where
  "new_CAddon name schemaFile valuesFile =
     \<lparr>ID = name, m_settings = None, m_loadSettingsFailed = False, m_hasUserSettings = False,
      definitionFile = schemaFile, userSettingsFile = valuesFile,
      rootDirectory = False, addonDirectory = False, trace = []\<rparr>"

text \<open>
  The schema of the spec's examples: one key \<open>k\<close> of type bool with default true.  The
  document holds no user values.
\<close>

definition example_schema :: "int CXBMCTinyXML" where
  "example_schema = Root (Some [(''k'', BoolValue True)]) None"

text \<open>
  A store for the examples that can create every key but \<open>locked\<close>, in the place of the
  parameter of \<^verbatim>\<open>AddSetting\<close>.
\<close>

fun example_canCreate :: "int CAddonSettings \<Rightarrow> string \<Rightarrow> int Value \<Rightarrow> bool" where
  "example_canCreate st key v = (key \<noteq> ''locked'')"

text \<open>A string form of settings for the examples, in the place of \<^verbatim>\<open>CSetting::ToString\<close>.\<close>

fun example_ToString :: "int CSetting \<Rightarrow> string" where
  "example_ToString setting =
     (case m_value setting of
        BoolValue b \<Rightarrow> if b then ''true'' else ''false''
      | StringValue t \<Rightarrow> t
      | _ \<Rightarrow> ''number'')"

text \<open>
  An add-on after a first \<^verbatim>\<open>LoadSettings(false, true)\<close> that found a schema file it could not
  parse.
\<close>

definition failed_addon :: "int World" where
  "failed_addon =
     \<lparr>ID = ''plugin.example'', m_settings = None, m_loadSettingsFailed = True,
      m_hasUserSettings = False, definitionFile = Unparsable, userSettingsFile = NoFile,
      rootDirectory = False, addonDirectory = False,
      trace = [XmlLoadFile DefinitionFile, FileExists DefinitionFile, LogError UnableToLoad]\<rparr>"

text \<open>An add-on without schema file after a first \<^verbatim>\<open>LoadSettings(false, true)\<close>.\<close>

definition unconfigured_addon :: "int World" where
  "unconfigured_addon =
     \<lparr>ID = ''plugin.example'', m_settings = None, m_loadSettingsFailed = True,
      m_hasUserSettings = False, definitionFile = NoFile, userSettingsFile = NoFile,
      rootDirectory = False, addonDirectory = False,
      trace = [XmlLoadFile DefinitionFile, FileExists DefinitionFile]\<rparr>"

text \<open>
  An add-on without schema file after \<^verbatim>\<open>SettingsFromXML\<close> was given the example schema as
  its document.
\<close>

definition injected_addon :: "int World" where
  "injected_addon =
     \<lparr>ID = ''plugin.example'',
      m_settings = Some \<lparr>m_state = Initialized,
                         m_nodes = [(''k'', \<lparr>m_default = BoolValue True, m_value = BoolValue True\<rparr>)]\<rparr>,
      m_loadSettingsFailed = True, m_hasUserSettings = False,
      definitionFile = NoFile, userSettingsFile = NoFile,
      rootDirectory = False, addonDirectory = False,
      trace = [XmlLoadFile DefinitionFile, FileExists DefinitionFile,
               LogError FailedToLoadUserSettings]\<rparr>"

text \<open>
  An add-on with the example schema and no user values file: after
  \<^verbatim>\<open>LoadSettings(false, false)\<close>, then after \<^verbatim>\<open>UpdateSettingBool("k", false)\<close>, then after
  \<^verbatim>\<open>LoadUserSettings()\<close>.
\<close>

definition initialized_addon :: "int World" where
  "initialized_addon =
     \<lparr>ID = ''plugin.example'',
      m_settings = Some \<lparr>m_state = Initialized,
                         m_nodes = [(''k'', \<lparr>m_default = BoolValue True, m_value = BoolValue True\<rparr>)]\<rparr>,
      m_loadSettingsFailed = False, m_hasUserSettings = False,
      definitionFile = Xml example_schema, userSettingsFile = NoFile,
      rootDirectory = False, addonDirectory = False,
      trace = [XmlLoadFile DefinitionFile]\<rparr>"

definition edited_addon :: "int World" where
  "edited_addon =
     \<lparr>ID = ''plugin.example'',
      m_settings = Some \<lparr>m_state = Initialized,
                         m_nodes = [(''k'', \<lparr>m_default = BoolValue True, m_value = BoolValue False\<rparr>)]\<rparr>,
      m_loadSettingsFailed = False, m_hasUserSettings = False,
      definitionFile = Xml example_schema, userSettingsFile = NoFile,
      rootDirectory = False, addonDirectory = False,
      trace = [XmlLoadFile DefinitionFile]\<rparr>"

definition reloaded_addon :: "int World" where
  "reloaded_addon =
     \<lparr>ID = ''plugin.example'',
      m_settings = Some \<lparr>m_state = Loaded,
                         m_nodes = [(''k'', \<lparr>m_default = BoolValue True, m_value = BoolValue False\<rparr>)]\<rparr>,
      m_loadSettingsFailed = False, m_hasUserSettings = False,
      definitionFile = Xml example_schema, userSettingsFile = NoFile,
      rootDirectory = False, addonDirectory = False,
      trace = [XmlLoadFile DefinitionFile, FileExists UserSettingsFile]\<rparr>"

text \<open>
  The initialized add-on after \<^verbatim>\<open>UpdateSettingString("newkey", "v")\<close>.
\<close>

definition extended_addon :: "int World" where
  "extended_addon =
     \<lparr>ID = ''plugin.example'',
      m_settings = Some \<lparr>m_state = Initialized,
                         m_nodes = [(''k'', \<lparr>m_default = BoolValue True, m_value = BoolValue True\<rparr>),
                                    (''newkey'', \<lparr>m_default = StringValue ''v'', m_value = StringValue ''v''\<rparr>)]\<rparr>,
      m_loadSettingsFailed = False, m_hasUserSettings = False,
      definitionFile = Xml example_schema, userSettingsFile = NoFile,
      rootDirectory = False, addonDirectory = False,
      trace = [XmlLoadFile DefinitionFile]\<rparr>"

text \<open>
  An add-on with the example schema and no user values file after
  \<^verbatim>\<open>LoadSettings(false, true)\<close>.
\<close>

definition loaded_addon :: "int World" where
  "loaded_addon =
     \<lparr>ID = ''plugin.example'',
      m_settings = Some \<lparr>m_state = Loaded,
                         m_nodes = [(''k'', \<lparr>m_default = BoolValue True, m_value = BoolValue True\<rparr>)]\<rparr>,
      m_loadSettingsFailed = False, m_hasUserSettings = False,
      definitionFile = Xml example_schema, userSettingsFile = NoFile,
      rootDirectory = False, addonDirectory = False,
      trace = [XmlLoadFile DefinitionFile, FileExists UserSettingsFile]\<rparr>"

section \<open>Basic facts\<close>

lemma emit_fields [simp]:
  "m_settings (emit e s) = m_settings s"
  "m_loadSettingsFailed (emit e s) = m_loadSettingsFailed s"
  "m_hasUserSettings (emit e s) = m_hasUserSettings s"
  "ID (emit e s) = ID s"
  "definitionFile (emit e s) = definitionFile s"
  "userSettingsFile (emit e s) = userSettingsFile s"
  "rootDirectory (emit e s) = rootDirectory s"
  "addonDirectory (emit e s) = addonDirectory s"
  "trace (emit e s) = trace s @ [e]"
  by (simp_all add: emit_def)

lemma SettingsInitialized_simps [simp]:
  "SettingsInitialized (s\<lparr>m_settings := Some st\<rparr>) = IsInitialized st"
  "SettingsInitialized (s\<lparr>m_settings := None\<rparr>) = False"
  "SettingsInitialized (s\<lparr>m_loadSettingsFailed := b\<rparr>) = SettingsInitialized s"
  "SettingsInitialized (s\<lparr>m_hasUserSettings := b\<rparr>) = SettingsInitialized s"
  "SettingsInitialized (emit e s) = SettingsInitialized s"
  by (simp_all add: SettingsInitialized_def)

lemma SettingsInitialized_Some:
  "m_settings s = Some st \<Longrightarrow> SettingsInitialized s = IsInitialized st"
  by (simp add: SettingsInitialized_def)

lemma SettingsInitialized_None:
  "m_settings s = None \<Longrightarrow> \<not> SettingsInitialized s"
  by (simp add: SettingsInitialized_def)

lemma IsInitialized_new [simp]: "\<not> IsInitialized new_CAddonSettings"
  by (simp add: IsInitialized_def new_CAddonSettings_def)

lemma IsInitialized_Uninitialize [simp]: "\<not> IsInitialized (Uninitialize st)"
  by (simp add: IsInitialized_def Uninitialize_def)

lemma Initialize_cases:
  "(fst (Initialize st doc) \<longrightarrow> IsInitialized (snd (Initialize st doc))) \<and>
   (IsInitialized st \<longrightarrow> IsInitialized (snd (Initialize st doc)))"
  by (auto simp: Initialize_def IsInitialized_def split: if_splits option.splits)

lemma Initialize_refused:
  "\<not> fst (Initialize st doc) \<Longrightarrow> snd (Initialize st doc) = st"
  by (auto simp: Initialize_def split: if_splits option.splits)

lemma Load_cases:
  "IsInitialized st \<Longrightarrow> IsInitialized (snd (Load st doc))"
  by (auto simp: Load_def IsInitialized_def split: if_splits option.splits)

lemma SetLoaded_cases [simp]:
  "IsInitialized (SetLoaded st) = IsInitialized st"
  by (auto simp: SetLoaded_def IsInitialized_def)

lemma SetDefaults_cases [simp]:
  "IsInitialized (SetDefaults st) = IsInitialized st"
  by (auto simp: SetDefaults_def IsInitialized_def)

lemma bind_map_option_Some:
  "map_option f x \<bind> (\<lambda>y. Some (g y)) = map_option (\<lambda>p. g (f p)) x"
  by (cases x) simp_all

section \<open>The mutual recursion, resolved\<close>

text \<open>
  \<open>GetSettings\<close> calls back into \<open>LoadSettings\<close> only when there is no store yet.  Inside
  \<open>LoadSettings\<close> and \<open>LoadUserSettings\<close> that call either finds a store or finds the failure
  flag already set, so each function has an equation without recursion.
\<close>

lemma GetSettings_nonnull:
  "m_settings s = Some st \<Longrightarrow> GetSettings s = Some s"
  by (subst GetSettings.simps) simp

lemma LoadSettings_failed:
  "m_loadSettingsFailed s \<Longrightarrow>
   LoadSettings s bForce l = Some (SettingsInitialized s \<and> \<not> bForce, s)"
  by (subst LoadSettings.simps) simp

lemma LoadSettings_initialized:
  "SettingsInitialized s \<Longrightarrow> LoadSettings s False l = Some (True, s)"
  by (subst LoadSettings.simps) simp

lemma GetSettings_null_failed:
  "m_settings s = None \<Longrightarrow> m_loadSettingsFailed s \<Longrightarrow>
   GetSettings s = Some (s\<lparr>m_settings := Some new_CAddonSettings\<rparr>)"
  by (subst GetSettings.simps) (simp add: LoadSettings_failed)

lemma IsInitialized_settings_or_new [simp]:
  "IsInitialized (settings_or_new s) = SettingsInitialized s"
  by (simp add: settings_or_new_def SettingsInitialized_def split: option.splits)

lemma settings_or_new_simps [simp]:
  "settings_or_new (s\<lparr>m_settings := Some st\<rparr>) = st"
  "settings_or_new (s\<lparr>m_loadSettingsFailed := b\<rparr>) = settings_or_new s"
  "settings_or_new (emit e s) = settings_or_new s"
  by (simp_all add: settings_or_new_def)

lemma GetSettings_failed:
  "m_loadSettingsFailed s \<Longrightarrow> GetSettings s = Some (s\<lparr>m_settings := Some (settings_or_new s)\<rparr>)"
  by (cases "m_settings s")
     (simp_all add: GetSettings_null_failed GetSettings_nonnull settings_or_new_def)

lemma SettingsFromXML_initialized:
  assumes "m_settings s = Some st" "IsInitialized st"
  shows "SettingsFromXML s doc loadDefaults =
     (if \<not> RootElement doc then Some (False, s)
      else let st1 = (if loadDefaults then SetDefaults st else st);
               s3 = s\<lparr>m_settings := Some (snd (Load st1 doc))\<rparr>
           in if \<not> fst (Load st1 doc) then Some (False, emit (LogError FailedToLoadUserSettings) s3)
              else Some (True, s3\<lparr>m_hasUserSettings := True\<rparr>))"
  using assms
  by (subst SettingsFromXML.simps)
     (simp add: SettingsInitialized_Some GetSettings_nonnull Let_def case_prod_beta)

lemma LoadUserSettings_uninitialized:
  "\<not> SettingsInitialized s \<Longrightarrow> LoadUserSettings s = Some (False, s)"
  by (subst LoadUserSettings.simps) simp

lemma LoadUserSettings_initialized:
  assumes "m_settings s = Some st" "IsInitialized st"
  shows "LoadUserSettings s =
     (let s2 = emit (FileExists UserSettingsFile) (s\<lparr>m_hasUserSettings := False\<rparr>)
      in if \<not> Exists (userSettingsFile s)
         then Some (True, s2\<lparr>m_settings := Some (SetLoaded st)\<rparr>)
         else let s3 = emit (XmlLoadFile UserSettingsFile) s2
              in case LoadFile (userSettingsFile s) of
                   None \<Rightarrow> Some (False, emit (LogError FailedToLoadFrom) s3)
                 | Some doc \<Rightarrow> SettingsFromXML s3 doc False)"
  using assms
  by (subst LoadUserSettings.simps)
     (simp add: SettingsInitialized_Some GetSettings_nonnull Let_def)

lemma LoadSettings_attempt:
  assumes "\<not> m_loadSettingsFailed s" "\<not> (SettingsInitialized s \<and> \<not> bForce)"
  shows "LoadSettings s bForce l =
    (let s1 = s\<lparr>m_loadSettingsFailed := True\<rparr>;
         s2 = (if SettingsInitialized s \<and> bForce
               then s1\<lparr>m_settings := Some (Uninitialize (settings_or_new s))\<rparr> else s1);
         s3 = emit (XmlLoadFile DefinitionFile) s2
     in case LoadFile (definitionFile s) of
          None \<Rightarrow>
            (let s4 = emit (FileExists DefinitionFile) s3
             in if Exists (definitionFile s) then Some (False, emit (LogError UnableToLoad) s4)
                else Some (False, s4))
        | Some doc \<Rightarrow>
            (let st = settings_or_new s3;
                 s4 = s3\<lparr>m_settings := Some (snd (Initialize st doc))\<rparr>
             in if \<not> fst (Initialize st doc)
                then Some (False, emit (LogError FailedToInitialize) s4)
                else if l
                then map_option (\<lambda>p. (True, snd p)) (LoadUserSettings (s4\<lparr>m_loadSettingsFailed := False\<rparr>))
                else Some (True, s4\<lparr>m_loadSettingsFailed := False\<rparr>)))"
proof (cases "m_settings s")
  case None
  with assms show ?thesis
    by (subst LoadSettings.simps)
       (simp add: SettingsInitialized_None GetSettings_failed bind_map_option_Some
          Let_def case_prod_beta settings_or_new_def split: option.splits)
next
  case (Some st)
  with assms show ?thesis
    by (subst LoadSettings.simps)
       (simp add: SettingsInitialized_Some GetSettings_nonnull GetSettings_failed bind_map_option_Some
          Let_def case_prod_beta settings_or_new_def split: option.splits)
qed

section \<open>Every call returns\<close>

lemma SettingsFromXML_initialized_total:
  assumes "m_settings s = Some st" "IsInitialized st"
  shows "\<exists>r s'. SettingsFromXML s doc ld = Some (r, s') \<and> SettingsInitialized s'"
  using assms
  by (auto simp: SettingsFromXML_initialized SettingsInitialized_Some Let_def Load_cases)

lemma LoadUserSettings_total:
  "\<exists>r s'. LoadUserSettings s = Some (r, s') \<and> (SettingsInitialized s \<longrightarrow> SettingsInitialized s')"
proof (cases "SettingsInitialized s")
  case False
  then show ?thesis by (auto simp: LoadUserSettings_uninitialized)
next
  case True
  then obtain st where st: "m_settings s = Some st" "IsInitialized st"
    by (auto simp: SettingsInitialized_def split: option.splits)
  show ?thesis
  proof (cases "userSettingsFile s")
    case (Xml doc)
    have "\<exists>r s'. SettingsFromXML (emit (XmlLoadFile UserSettingsFile)
            (emit (FileExists UserSettingsFile) (s\<lparr>m_hasUserSettings := False\<rparr>))) doc False = Some (r, s')
          \<and> SettingsInitialized s'"
      by (rule SettingsFromXML_initialized_total[where st = st]) (simp_all add: st)
    with Xml st True show ?thesis
      by (auto simp: LoadUserSettings_initialized Let_def)
  qed (use st True in \<open>auto simp: LoadUserSettings_initialized Let_def\<close>)
qed

lemma LoadSettings_total:
  "\<exists>r s'. LoadSettings s bForce l = Some (r, s') \<and> (r \<longrightarrow> SettingsInitialized s')"
proof (cases "m_loadSettingsFailed s \<or> (SettingsInitialized s \<and> \<not> bForce)")
  case True
  then show ?thesis
    by (auto simp: LoadSettings_failed LoadSettings_initialized)
next
  case False
  then have att: "\<not> m_loadSettingsFailed s" "\<not> (SettingsInitialized s \<and> \<not> bForce)"
    by auto
  show ?thesis
  proof (cases "LoadFile (definitionFile s)")
    case None
    then show ?thesis
      by (auto simp: LoadSettings_attempt[OF att] Let_def)
  next
    case (Some doc)
    let ?s3 = "emit (XmlLoadFile DefinitionFile)
        (if SettingsInitialized s \<and> bForce
         then s\<lparr>m_loadSettingsFailed := True, m_settings := Some (Uninitialize (settings_or_new s))\<rparr>
         else s\<lparr>m_loadSettingsFailed := True\<rparr>)"
    let ?st = "settings_or_new ?s3"
    let ?s5 = "?s3\<lparr>m_settings := Some (snd (Initialize ?st doc)), m_loadSettingsFailed := False\<rparr>"
    show ?thesis
    proof (cases "fst (Initialize ?st doc)")
      case False
      with Some show ?thesis
        by (auto simp: LoadSettings_attempt[OF att] Let_def)
    next
      case True
      then have init: "SettingsInitialized ?s5"
        using Initialize_cases[of ?st doc] by simp
      obtain r s' where "LoadUserSettings ?s5 = Some (r, s')" "SettingsInitialized s'"
        using LoadUserSettings_total[of ?s5] init by blast
      with Some True init show ?thesis
        by (auto simp: LoadSettings_attempt[OF att] Let_def)
    qed
  qed
qed

lemma LoadSettings_true_nonnull:
  "LoadSettings s bForce l = Some (True, s') \<Longrightarrow> \<exists>st. m_settings s' = Some st \<and> IsInitialized st"
  using LoadSettings_total[of s bForce l]
  by (auto simp: SettingsInitialized_def split: option.splits)

lemma LoadSettings_false_flagged:
  assumes "\<not> m_loadSettingsFailed s" "LoadSettings s bForce l = Some (False, s')"
  shows "m_loadSettingsFailed s' \<and> \<not> SettingsInitialized s'"
proof -
  have att: "\<not> (SettingsInitialized s \<and> \<not> bForce)"
    using assms(2) LoadSettings_initialized[of s l] by (cases bForce) auto
  show ?thesis
    using assms(2) att
    by (auto simp: LoadSettings_attempt[OF assms(1) att] Let_def Initialize_refused
             split: option.splits if_splits)
qed

lemma LoadUserSettings_keeps_store:
  assumes "LoadUserSettings s = Some (r, s')" "m_settings s = Some st"
  shows "\<exists>st'. m_settings s' = Some st'"
proof (cases "IsInitialized st")
  case False
  with assms show ?thesis
    by (simp add: LoadUserSettings_uninitialized SettingsInitialized_Some)
next
  case True
  with assms show ?thesis
    by (auto simp: LoadUserSettings_initialized SettingsFromXML_initialized Let_def
             split: if_splits option.splits)
qed

lemma LoadSettings_keeps_store:
  assumes "m_settings s = Some st" "LoadSettings s bForce l = Some (r, s')"
  shows "\<exists>st'. m_settings s' = Some st'"
proof (cases "m_loadSettingsFailed s \<or> (SettingsInitialized s \<and> \<not> bForce)")
  case True
  with assms show ?thesis
    by (auto simp: LoadSettings_failed LoadSettings_initialized)
next
  case False
  then have att: "\<not> m_loadSettingsFailed s" "\<not> (SettingsInitialized s \<and> \<not> bForce)"
    by auto
  show ?thesis
    using assms
    by (auto simp: LoadSettings_attempt[OF att] Let_def split: option.splits if_splits
             dest: LoadUserSettings_keeps_store)
qed

lemma GetSettings_total:
  "\<exists>s' st. GetSettings s = Some s' \<and> m_settings s' = Some st"
proof (cases "m_settings s")
  case (Some st)
  then show ?thesis by (simp add: GetSettings_nonnull)
next
  case None
  let ?s1 = "s\<lparr>m_settings := Some new_CAddonSettings\<rparr>"
  obtain r s' where l: "LoadSettings ?s1 False True = Some (r, s')"
    using LoadSettings_total[of ?s1 False True] by blast
  then obtain st' where "m_settings s' = Some st'"
    using LoadSettings_keeps_store[of ?s1 new_CAddonSettings False True r s'] by auto
  with None l show ?thesis
    by (subst GetSettings.simps) simp
qed

lemma SettingsFromXML_total:
  "\<exists>r s'. SettingsFromXML s doc ld = Some (r, s')"
proof (cases "SettingsInitialized s")
  case True
  then obtain st where "m_settings s = Some st" "IsInitialized st"
    by (auto simp: SettingsInitialized_def split: option.splits)
  then show ?thesis
    using SettingsFromXML_initialized_total[of s st doc ld] by blast
next
  case False
  obtain g st where g: "GetSettings s = Some g" "m_settings g = Some st"
    using GetSettings_total[of s] by blast
  show ?thesis
    using False g Initialize_cases[of st doc]
    by (subst SettingsFromXML.simps)
       (auto simp: Let_def case_prod_beta GetSettings_nonnull)
qed

lemma HasSettings_cases:
  "\<exists>ok s1. LoadSettings s False True = Some (ok, s1) \<and>
     (if ok then \<exists>st. m_settings s1 = Some st \<and> IsInitialized st \<and>
                     HasSettings s = Some (CAddonSettings_HasSettings st, s1)
      else HasSettings s = Some (False, s1))"
proof -
  obtain ok s1 where l: "LoadSettings s False True = Some (ok, s1)"
    using LoadSettings_total[of s False True] by blast
  show ?thesis
  proof (cases ok)
    case True
    with l obtain st where "m_settings s1 = Some st" "IsInitialized st"
      using LoadSettings_true_nonnull[of s False True s1] by auto
    with l True show ?thesis by (auto simp: HasSettings_def)
  next
    case False
    with l show ?thesis by (auto simp: HasSettings_def)
  qed
qed

lemma HasSettings_total:
  "\<exists>has s1. HasSettings s = Some (has, s1)"
  using HasSettings_cases[of s] by (auto split: if_splits)

lemma HasUserSettings_total:
  "\<exists>r s'. HasUserSettings s = Some (r, s')"
  using LoadSettings_total[of s False True]
  by (auto simp: HasUserSettings_def)

lemma HasUserSettings_initialized:
  "SettingsInitialized s \<Longrightarrow> HasUserSettings s = Some (SettingsLoaded s \<and> m_hasUserSettings s, s)"
  by (simp add: HasUserSettings_def LoadSettings_initialized)

lemma SaveSettings_total:
  "\<exists>s'. SaveSettings HAS_PYTHON toXml s instanceId = Some s'"
  by (auto simp: SaveSettings_def SettingsToXML_def HasSettingsToSave_def SettingsLoaded_def
        SettingsInitialized_def Let_def split: option.splits)

section \<open>Loading user values\<close>

lemma LoadUserSettings_NoFile:
  assumes "m_settings s = Some st" "IsInitialized st" "userSettingsFile s = NoFile"
  shows "LoadUserSettings s =
     Some (True, emit (FileExists UserSettingsFile)
                   (s\<lparr>m_hasUserSettings := False, m_settings := Some (SetLoaded st)\<rparr>))"
  using assms by (simp add: LoadUserSettings_initialized Let_def emit_def)

lemma LoadUserSettings_Unparsable:
  assumes "SettingsInitialized s" "userSettingsFile s = Unparsable"
  shows "LoadUserSettings s =
     Some (False, emit (LogError FailedToLoadFrom) (emit (XmlLoadFile UserSettingsFile)
            (emit (FileExists UserSettingsFile) (s\<lparr>m_hasUserSettings := False\<rparr>))))"
proof -
  from assms(1) obtain st where "m_settings s = Some st" "IsInitialized st"
    by (auto simp: SettingsInitialized_def split: option.splits)
  with assms(2) show ?thesis
    by (simp add: LoadUserSettings_initialized Let_def)
qed

lemma LoadUserSettings_false_flag:
  assumes "SettingsInitialized s" "LoadUserSettings s = Some (False, s')"
  shows "\<not> m_hasUserSettings s' \<and> SettingsInitialized s'"
proof -
  from assms(1) obtain st where st: "m_settings s = Some st" "IsInitialized st"
    by (auto simp: SettingsInitialized_def split: option.splits)
  show ?thesis
    using assms st Load_cases[of st]
    by (auto simp: LoadUserSettings_initialized SettingsFromXML_initialized Let_def
             split: if_splits option.splits)
qed

section \<open>The typed accessors\<close>


lemma put_node_absent:
  "map_of nodes key = None \<Longrightarrow> put_node key x (nodes @ [(key, y)]) = nodes @ [(key, x)]"
  by (induction nodes) (auto split: if_splits)

lemma UpdateSettingValue_cases:
  assumes "key \<noteq> []" "HasSettings s = Some (has, s1)"
  shows "\<not> has \<Longrightarrow> UpdateSettingValue canCreate s key val = Some (False, s1)"
    and "has \<Longrightarrow> m_settings s1 = Some st \<Longrightarrow> CAddonSettings_GetSetting st key = None \<Longrightarrow>
         canCreate st key val \<Longrightarrow>
         UpdateSettingValue canCreate s key val =
           Some (True, s1\<lparr>m_settings := Some (st\<lparr>m_nodes := m_nodes st @ [(key, \<lparr>m_default = val, m_value = val\<rparr>)]\<rparr>)\<rparr>)"
    and "has \<Longrightarrow> m_settings s1 = Some st \<Longrightarrow> CAddonSettings_GetSetting st key = None \<Longrightarrow>
         \<not> canCreate st key val \<Longrightarrow>
         UpdateSettingValue canCreate s key val =
           Some (False, emit (LogError (FailedToAddUndefined key)) s1)"
    and "has \<Longrightarrow> m_settings s1 = Some st \<Longrightarrow> CAddonSettings_GetSetting st key = Some setting \<Longrightarrow>
         GetType setting \<noteq> Type val \<Longrightarrow> UpdateSettingValue canCreate s key val = Some (False, s1)"
  using assms
  by (simp_all add: UpdateSettingValue_def GetSettings_nonnull AddSetting_def Let_def
        CAddonSettings_GetSetting_def GetType_def SetValue_def put_setting_def put_node_absent)

lemma UpdateSettingValue_total:
  "\<exists>ok s'. UpdateSettingValue canCreate s key val = Some (ok, s')"
proof (cases "key = []")
  case True
  then show ?thesis by (auto simp: UpdateSettingValue_def)
next
  case False
  obtain ok s1 where h: "if ok then \<exists>st. m_settings s1 = Some st \<and> IsInitialized st \<and>
                     HasSettings s = Some (CAddonSettings_HasSettings st, s1)
            else HasSettings s = Some (False, s1)"
    using HasSettings_cases[of s] by blast
  show ?thesis
  proof (cases ok)
    case False
    with h \<open>key \<noteq> []\<close> show ?thesis by (auto simp: UpdateSettingValue_def)
  next
    case True
    with h obtain st where "m_settings s1 = Some st"
      "HasSettings s = Some (CAddonSettings_HasSettings st, s1)" by auto
    with \<open>key \<noteq> []\<close> show ?thesis
      by (auto simp: UpdateSettingValue_def GetSettings_nonnull AddSetting_def Let_def SetValue_def
               split: option.splits)
  qed
qed

section \<open>Running the add-on on concrete worlds\<close>

lemmas eval_simps = LoadSettings.simps GetSettings.simps LoadUserSettings.simps SettingsFromXML.simps
  new_CAddon_def SettingsInitialized_def SettingsLoaded_def emit_def example_schema_def
  Initialize_def IsInitialized_def IsLoaded_def new_CAddonSettings_def SetLoaded_def Load_def
  Uninitialize_def HasSettings_def HasUserSettings_def GetSetting_def GetSettingValue_def
  UpdateSettingValue_def CAddonSettings_HasSettings_def CAddonSettings_GetSetting_def
  AddSetting_def put_setting_def GetType_def GetValue_def SetValue_def GetSettingBool_def
  UpdateSettingBool_def GetSettingInt_def UpdateSettingInt_def GetSettingString_def
  UpdateSettingString_def Let_def

section \<open>The claims\<close>

subsection \<open>C1: a failed schema load is not retried\<close>

text \<open>
  C1, as the code has it.  Once a schema load has failed (\<open>m_loadSettingsFailed\<close> is set),
  \<open>LoadSettings\<close> changes nothing, neither the add-on nor the file system, so it reads and
  parses nothing, whatever \<open>bForce\<close> is: the flag is tested before \<open>bForce\<close> is acted on, and
  only a successful load clears it.  The call returns false, except that it returns true when
  the store is initialized and \<open>bForce\<close> is false.  A call that fails on an add-on with the
  flag clear leaves the flag set, after which every call, forced or not, returns false and
  changes nothing.  The world that is returned holds the trace, so "the same world" says that
  no file was read.
\<close>

theorem LoadSettings_failure_is_sticky:
  "(m_loadSettingsFailed s \<longrightarrow>
      LoadSettings s bForce l = Some (SettingsInitialized s \<and> \<not> bForce, s)) \<and>
   (\<not> m_loadSettingsFailed s \<longrightarrow> LoadSettings s bForce l = Some (False, s') \<longrightarrow>
      m_loadSettingsFailed s' \<and> (\<forall>bForce' l'. LoadSettings s' bForce' l' = Some (False, s')))"
  using LoadSettings_false_flagged[of s bForce l s']
  by (auto simp: LoadSettings_failed)

text \<open>C1 at the add-on whose schema file could not be parsed: forced or not, nothing happens.\<close>

theorem LoadSettings_failure_is_sticky_witness:
  "m_loadSettingsFailed failed_addon \<and>
   LoadSettings failed_addon True True = Some (False, failed_addon) \<and>
   LoadSettings failed_addon False True = Some (False, failed_addon)"
  using LoadSettings_failure_is_sticky[of failed_addon True True failed_addon]
        LoadSettings_failure_is_sticky[of failed_addon False True failed_addon]
  by (simp add: failed_addon_def SettingsInitialized_def)

text \<open>
  C1 as the spec states it fails: the add-on whose schema file could not be parsed is not
  re-initialized by \<^verbatim>\<open>LoadSettings(true, true)\<close>, even when a well-formed schema file has
  appeared in the meantime.  The forced call returns false and leaves the trace as it was: no
  file was read.
\<close>

theorem LoadSettings_force_counterexample:
  "LoadSettings (new_CAddon ''plugin.example'' Unparsable NoFile) False True = Some (False, failed_addon) \<and>
   LoadSettings (failed_addon\<lparr>definitionFile := Xml example_schema\<rparr>) True True =
     Some (False, failed_addon\<lparr>definitionFile := Xml example_schema\<rparr>)"
  by (simp add: LoadSettings.simps new_CAddon_def failed_addon_def SettingsInitialized_def emit_def)

subsection \<open>C2: no schema file, no settings\<close>

text \<open>
  C2, as the code has it.  For an add-on with no schema file on disk whose store is not
  initialized, \<open>HasSettings\<close> returns false and \<open>GetSetting\<close> returns the empty string for
  every key, and the add-on is in the same situation afterwards.
\<close>

theorem no_schema_file_no_settings:
  assumes "\<not> SettingsInitialized s" "definitionFile s = NoFile"
  shows "\<exists>s'. HasSettings s = Some (False, s') \<and>
              GetSetting ToString s key = Some ([], if key = [] then s else s') \<and>
              \<not> SettingsInitialized s' \<and> definitionFile s' = NoFile"
proof (cases "m_loadSettingsFailed s")
  case True
  with assms show ?thesis
    by (simp add: HasSettings_def GetSetting_def LoadSettings_failed)
next
  case False
  with assms show ?thesis
    by (simp add: HasSettings_def GetSetting_def LoadSettings_attempt Let_def)
qed

text \<open>C2 at a new add-on that has neither a schema file nor a user values file.\<close>

theorem no_schema_file_no_settings_witness:
  "\<not> SettingsInitialized (new_CAddon ''plugin.example'' NoFile NoFile :: int World) \<and>
   definitionFile (new_CAddon ''plugin.example'' NoFile NoFile :: int World) = NoFile \<and>
   HasSettings (new_CAddon ''plugin.example'' NoFile NoFile) = Some (False, unconfigured_addon) \<and>
   GetSetting example_ToString (new_CAddon ''plugin.example'' NoFile NoFile) ''k'' =
     Some ([], unconfigured_addon)"
  using no_schema_file_no_settings[of "new_CAddon ''plugin.example'' NoFile NoFile :: int World"
          example_ToString "''k''"]
  by (simp add: eval_simps unconfigured_addon_def)

text \<open>
  C2 as the spec states it fails: \<^verbatim>\<open>SettingsFromXML\<close> initializes an uninitialized store from
  the document it is given.  After that call an add-on without schema file has settings, and
  \<open>GetSetting\<close> returns the value of \<open>k\<close>.
\<close>

theorem no_schema_file_counterexample:
  "SettingsFromXML (new_CAddon ''plugin.example'' NoFile NoFile) example_schema False =
     Some (False, injected_addon) \<and>
   definitionFile injected_addon = NoFile \<and>
   HasSettings injected_addon = Some (True, injected_addon) \<and>
   GetSetting example_ToString injected_addon ''k'' = Some (''true'', injected_addon)"
  by (simp add: eval_simps injected_addon_def)

subsection \<open>C3: no user values file\<close>

text \<open>
  C3, as the code has it.  If the schema is initialized and there is no user values file,
  \<open>LoadUserSettings\<close> returns true and marks the store loaded; it leaves every setting as it
  was, so the settings are at their schema defaults afterwards if they were before; and
  \<open>HasUserSettings\<close> returns false afterwards.
\<close>

theorem LoadUserSettings_without_user_file:
  assumes "SettingsInitialized s" "userSettingsFile s = NoFile"
  shows "\<exists>s'. LoadUserSettings s = Some (True, s') \<and> SettingsLoaded s' \<and>
              map_option m_nodes (m_settings s') = map_option m_nodes (m_settings s) \<and>
              (at_defaults s \<longrightarrow> at_defaults s') \<and>
              HasUserSettings s' = Some (False, s')"
proof -
  from assms(1) obtain st where st: "m_settings s = Some st" "IsInitialized st"
    by (auto simp: SettingsInitialized_def split: option.splits)
  let ?s' = "emit (FileExists UserSettingsFile)
               (s\<lparr>m_hasUserSettings := False, m_settings := Some (SetLoaded st)\<rparr>)"
  have "LoadUserSettings s = Some (True, ?s')"
    using st assms(2) by (rule LoadUserSettings_NoFile)
  moreover have "SettingsLoaded ?s'"
    using st by (simp add: SettingsLoaded_def SetLoaded_def IsLoaded_def)
  moreover have "map_option m_nodes (m_settings ?s') = map_option m_nodes (m_settings s)"
    using st by (simp add: SetLoaded_def)
  moreover have "at_defaults s \<longrightarrow> at_defaults ?s'"
    using st by (simp add: at_defaults_def SetLoaded_def)
  moreover have "HasUserSettings ?s' = Some (False, ?s')"
    using st by (simp add: HasUserSettings_initialized)
  ultimately show ?thesis by blast
qed

text \<open>C3 at the add-on that has just been initialized from the example schema.\<close>

theorem LoadUserSettings_without_user_file_witness:
  "SettingsInitialized initialized_addon \<and> userSettingsFile initialized_addon = NoFile \<and>
   at_defaults initialized_addon \<and>
   (\<exists>s'. LoadUserSettings initialized_addon = Some (True, s') \<and> SettingsLoaded s' \<and>
         at_defaults s' \<and> HasUserSettings s' = Some (False, s'))"
  using LoadUserSettings_without_user_file[of initialized_addon]
  by (auto simp: initialized_addon_def SettingsInitialized_def IsInitialized_def at_defaults_def)

text \<open>
  C3 as the spec states it fails: \<open>LoadUserSettings\<close> does not reset values.  The add-on is
  initialized from the example schema, \<open>k\<close> is set to false, and \<open>LoadUserSettings\<close> finds no
  user values file: it returns true and marks the store loaded, and \<open>k\<close> is still false, not
  its schema default true.
\<close>

theorem LoadUserSettings_defaults_counterexample:
  "LoadSettings (new_CAddon ''plugin.example'' (Xml example_schema) NoFile) False False =
     Some (True, initialized_addon) \<and>
   UpdateSettingBool example_canCreate initialized_addon ''k'' False = Some (True, edited_addon) \<and>
   SettingsInitialized edited_addon \<and> userSettingsFile edited_addon = NoFile \<and>
   LoadUserSettings edited_addon = Some (True, reloaded_addon) \<and>
   SettingsLoaded reloaded_addon \<and> \<not> at_defaults reloaded_addon \<and>
   GetSettingBool reloaded_addon ''k'' True = Some (True, False, reloaded_addon)"
  by (simp add: eval_simps initialized_addon_def edited_addon_def reloaded_addon_def at_defaults_def)

subsection \<open>C4: an unparsable user values file\<close>

text \<open>
  C4.  If the schema is initialized and the user values file exists but cannot be parsed,
  \<open>LoadUserSettings\<close> returns false and does not touch the store: a store that was not loaded
  is still not loaded and still initialized, and settings that were at their schema defaults
  still are.
\<close>

theorem LoadUserSettings_unparsable_user_file:
  assumes "SettingsInitialized s" "userSettingsFile s = Unparsable"
  shows "\<exists>s'. LoadUserSettings s = Some (False, s') \<and> m_settings s' = m_settings s \<and>
              (\<not> SettingsLoaded s \<longrightarrow> \<not> SettingsLoaded s' \<and> SettingsInitialized s') \<and>
              (at_defaults s \<longrightarrow> at_defaults s')"
  using assms
  by (simp add: LoadUserSettings_Unparsable SettingsLoaded_def at_defaults_def)

text \<open>C4 at the initialized add-on, with a user values file that cannot be parsed.\<close>

theorem LoadUserSettings_unparsable_user_file_witness:
  "SettingsInitialized (initialized_addon\<lparr>userSettingsFile := Unparsable\<rparr>) \<and>
   \<not> SettingsLoaded (initialized_addon\<lparr>userSettingsFile := Unparsable\<rparr>) \<and>
   at_defaults (initialized_addon\<lparr>userSettingsFile := Unparsable\<rparr>) \<and>
   (\<exists>s'. LoadUserSettings (initialized_addon\<lparr>userSettingsFile := Unparsable\<rparr>) = Some (False, s') \<and>
         \<not> SettingsLoaded s' \<and> SettingsInitialized s' \<and> at_defaults s')"
  using LoadUserSettings_unparsable_user_file[of "initialized_addon\<lparr>userSettingsFile := Unparsable\<rparr>"]
  by (auto simp: initialized_addon_def SettingsInitialized_def SettingsLoaded_def IsLoaded_def
        IsInitialized_def at_defaults_def)

subsection \<open>C5: typed reads\<close>



subsection \<open>C6: typed updates\<close>

text \<open>
  C6, as the code has it.  A typed update returns.  It returns false and defines nothing
  when the key is empty or \<open>HasSettings\<close> is false (the schema did not load, or it defines no
  setting).  Otherwise, \<open>s1\<close> being the add-on after \<open>HasSettings\<close> and \<open>st\<close> its store: if the
  key does not exist and the store can create it, the update returns true and the store has
  a new setting under the key, of the type of the value and holding the value, all other
  keys being as before; if the key does not exist and the store cannot create it, so that
  \<^verbatim>\<open>AddSetting\<close> returns null, the update logs the error and returns false, and the store is
  \<open>st\<close> as before; if the key exists with another type than the value's, the update returns
  false and the add-on is \<open>s1\<close>, so no setting has changed.
\<close>

theorem typed_update_define_or_refuse:
  "(\<exists>ok s'. UpdateSettingValue canCreate s key val = Some (ok, s')) \<and>
   (key = [] \<longrightarrow> UpdateSettingValue canCreate s key val = Some (False, s)) \<and>
   (key \<noteq> [] \<longrightarrow> HasSettings s = Some (False, s1) \<longrightarrow>
      UpdateSettingValue canCreate s key val = Some (False, s1)) \<and>
   (key \<noteq> [] \<longrightarrow> HasSettings s = Some (True, s1) \<longrightarrow> m_settings s1 = Some st \<longrightarrow>
      CAddonSettings_GetSetting st key = None \<longrightarrow> canCreate st key val \<longrightarrow>
      (\<exists>st'. UpdateSettingValue canCreate s key val = Some (True, s1\<lparr>m_settings := Some st'\<rparr>) \<and>
             CAddonSettings_GetSetting st' key = Some \<lparr>m_default = val, m_value = val\<rparr> \<and>
             (\<forall>k. k \<noteq> key \<longrightarrow> CAddonSettings_GetSetting st' k = CAddonSettings_GetSetting st k))) \<and>
   (key \<noteq> [] \<longrightarrow> HasSettings s = Some (True, s1) \<longrightarrow> m_settings s1 = Some st \<longrightarrow>
      CAddonSettings_GetSetting st key = None \<longrightarrow> \<not> canCreate st key val \<longrightarrow>
      UpdateSettingValue canCreate s key val =
        Some (False, emit (LogError (FailedToAddUndefined key)) s1) \<and>
      m_settings (emit (LogError (FailedToAddUndefined key)) s1) = Some st) \<and>
   (key \<noteq> [] \<longrightarrow> HasSettings s = Some (True, s1) \<longrightarrow> m_settings s1 = Some st \<longrightarrow>
      CAddonSettings_GetSetting st key = Some setting \<longrightarrow> GetType setting \<noteq> Type val \<longrightarrow>
      UpdateSettingValue canCreate s key val = Some (False, s1))"
proof (intro conjI impI)
  show "\<exists>ok s'. UpdateSettingValue canCreate s key val = Some (ok, s')"
    by (rule UpdateSettingValue_total)
next
  assume "key = []"
  then show "UpdateSettingValue canCreate s key val = Some (False, s)"
    by (simp add: UpdateSettingValue_def)
next
  assume "key \<noteq> []" "HasSettings s = Some (False, s1)"
  then show "UpdateSettingValue canCreate s key val = Some (False, s1)"
    by (simp add: UpdateSettingValue_cases(1))
next
  assume a: "key \<noteq> []" "HasSettings s = Some (True, s1)" "m_settings s1 = Some st"
    "CAddonSettings_GetSetting st key = None" "canCreate st key val"
  let ?st' = "st\<lparr>m_nodes := m_nodes st @ [(key, \<lparr>m_default = val, m_value = val\<rparr>)]\<rparr>"
  have "UpdateSettingValue canCreate s key val = Some (True, s1\<lparr>m_settings := Some ?st'\<rparr>)"
    using a by (simp add: UpdateSettingValue_cases(2))
  moreover have "CAddonSettings_GetSetting ?st' key = Some \<lparr>m_default = val, m_value = val\<rparr>"
    using a(4) by (simp add: CAddonSettings_GetSetting_def map_add_def)
  moreover have "\<forall>k. k \<noteq> key \<longrightarrow> CAddonSettings_GetSetting ?st' k = CAddonSettings_GetSetting st k"
    by (simp add: CAddonSettings_GetSetting_def map_add_def split: option.splits)
  ultimately show "\<exists>st'. UpdateSettingValue canCreate s key val = Some (True, s1\<lparr>m_settings := Some st'\<rparr>) \<and>
             CAddonSettings_GetSetting st' key = Some \<lparr>m_default = val, m_value = val\<rparr> \<and>
             (\<forall>k. k \<noteq> key \<longrightarrow> CAddonSettings_GetSetting st' k = CAddonSettings_GetSetting st k)"
    by blast
next
  assume "key \<noteq> []" "HasSettings s = Some (True, s1)" "m_settings s1 = Some st"
    "CAddonSettings_GetSetting st key = None" "\<not> canCreate st key val"
  then show "UpdateSettingValue canCreate s key val =
        Some (False, emit (LogError (FailedToAddUndefined key)) s1)"
    by (simp add: UpdateSettingValue_cases(3))
next
  assume "m_settings s1 = Some st"
  then show "m_settings (emit (LogError (FailedToAddUndefined key)) s1) = Some st"
    by simp
next
  assume "key \<noteq> []" "HasSettings s = Some (True, s1)" "m_settings s1 = Some st"
    "CAddonSettings_GetSetting st key = Some setting" "GetType setting \<noteq> Type val"
  then show "UpdateSettingValue canCreate s key val = Some (False, s1)"
    by (simp add: UpdateSettingValue_cases(4))
qed

text \<open>
  C6 at the initialized add-on, with a store that can create every key but \<open>locked\<close>:
  \<^verbatim>\<open>UpdateSettingString("newkey", "v")\<close> defines the key, a following
  \<^verbatim>\<open>UpdateSettingInt("newkey", 5)\<close> is refused and changes nothing,
  \<^verbatim>\<open>UpdateSettingString("locked", "v")\<close> cannot create its key, logs that and returns false,
  and an update with the empty key is refused.
\<close>

theorem typed_update_define_or_refuse_witness:
  "HasSettings initialized_addon = Some (True, initialized_addon) \<and>
   example_canCreate \<lparr>m_state = Initialized,
       m_nodes = [(''k'', \<lparr>m_default = BoolValue True, m_value = BoolValue True\<rparr>)]\<rparr>
     ''newkey'' (StringValue ''v'') \<and>
   UpdateSettingString example_canCreate initialized_addon ''newkey'' ''v'' = Some (True, extended_addon) \<and>
   HasSettings extended_addon = Some (True, extended_addon) \<and>
   UpdateSettingInt example_canCreate extended_addon ''newkey'' 5 = Some (False, extended_addon) \<and>
   \<not> example_canCreate \<lparr>m_state = Initialized,
       m_nodes = [(''k'', \<lparr>m_default = BoolValue True, m_value = BoolValue True\<rparr>)]\<rparr>
     ''locked'' (StringValue ''v'') \<and>
   UpdateSettingString example_canCreate initialized_addon ''locked'' ''v'' =
     Some (False, emit (LogError (FailedToAddUndefined ''locked'')) initialized_addon) \<and>
   UpdateSettingString example_canCreate initialized_addon [] ''v'' = Some (False, initialized_addon)"
  using typed_update_define_or_refuse[of example_canCreate initialized_addon "''newkey''"
          "StringValue ''v''" initialized_addon
          "\<lparr>m_state = Initialized, m_nodes = [(''k'', \<lparr>m_default = BoolValue True, m_value = BoolValue True\<rparr>)]\<rparr>"]
        typed_update_define_or_refuse[of example_canCreate initialized_addon "''locked''"
          "StringValue ''v''" initialized_addon
          "\<lparr>m_state = Initialized, m_nodes = [(''k'', \<lparr>m_default = BoolValue True, m_value = BoolValue True\<rparr>)]\<rparr>"]
        typed_update_define_or_refuse[of example_canCreate extended_addon "''newkey''" "IntValue 5"
          extended_addon
          "\<lparr>m_state = Initialized,
            m_nodes = [(''k'', \<lparr>m_default = BoolValue True, m_value = BoolValue True\<rparr>),
                       (''newkey'', \<lparr>m_default = StringValue ''v'', m_value = StringValue ''v''\<rparr>)]\<rparr>"
          "\<lparr>m_default = StringValue ''v'', m_value = StringValue ''v''\<rparr>"]
  by (simp add: eval_simps initialized_addon_def extended_addon_def)

text \<open>
  C6 as the spec states it fails: on the add-on without schema file the key \<open>newkey\<close> does not
  exist and the store would create any key but \<open>locked\<close>, and still
  \<^verbatim>\<open>UpdateSettingString("newkey", "v")\<close> returns false and defines nothing; there is not even
  a store afterwards.
\<close>

theorem typed_update_counterexample:
  "UpdateSettingString example_canCreate (new_CAddon ''plugin.example'' NoFile NoFile) ''newkey'' ''v'' =
     Some (False, unconfigured_addon) \<and>
   m_settings unconfigured_addon = None"
  by (simp add: eval_simps unconfigured_addon_def)

subsection \<open>C7: reading a setting as a string\<close>

text \<open>
  C7.  \<open>GetSetting\<close> returns the empty string when the key is empty, and when
  \<^verbatim>\<open>LoadSettings(false, true)\<close> fails; that load always returns.  When the key is not empty
  and the load succeeds there is a store, and \<open>GetSetting\<close> returns the string form of the
  setting that the store has under the key, or the empty string if it has none.
\<close>

theorem GetSetting_result:
  "(key = [] \<longrightarrow> GetSetting ToString s key = Some ([], s)) \<and>
   (\<exists>ok s1. LoadSettings s False True = Some (ok, s1)) \<and>
   (key \<noteq> [] \<longrightarrow> LoadSettings s False True = Some (False, s1) \<longrightarrow>
      GetSetting ToString s key = Some ([], s1)) \<and>
   (key \<noteq> [] \<longrightarrow> LoadSettings s False True = Some (True, s1) \<longrightarrow>
      (\<exists>st. m_settings s1 = Some st \<and>
            GetSetting ToString s key =
              Some (case CAddonSettings_GetSetting st key of
                      None \<Rightarrow> []
                    | Some setting \<Rightarrow> ToString setting, s1)))"
proof (intro conjI impI)
  show "\<exists>ok s1. LoadSettings s False True = Some (ok, s1)"
    using LoadSettings_total[of s False True] by blast
next
  assume "key \<noteq> []" "LoadSettings s False True = Some (True, s1)"
  moreover from this obtain st where "m_settings s1 = Some st"
    using LoadSettings_true_nonnull[of s False True s1] by auto
  ultimately show "\<exists>st. m_settings s1 = Some st \<and>
            GetSetting ToString s key =
              Some (case CAddonSettings_GetSetting st key of
                      None \<Rightarrow> []
                    | Some setting \<Rightarrow> ToString setting, s1)"
    by (auto simp: GetSetting_def split: option.splits)
qed (simp_all add: GetSetting_def)

text \<open>
  C7 at the loaded add-on, for the key \<open>k\<close>, for a key that is not defined and for the empty
  key, and at the add-on whose schema could not be parsed.
\<close>

theorem GetSetting_result_witness:
  "LoadSettings loaded_addon False True = Some (True, loaded_addon) \<and>
   GetSetting example_ToString loaded_addon ''k'' = Some (''true'', loaded_addon) \<and>
   GetSetting example_ToString loaded_addon ''other'' = Some ([], loaded_addon) \<and>
   GetSetting example_ToString loaded_addon [] = Some ([], loaded_addon) \<and>
   LoadSettings failed_addon False True = Some (False, failed_addon) \<and>
   GetSetting example_ToString failed_addon ''k'' = Some ([], failed_addon)"
  using GetSetting_result[of "''k''" example_ToString loaded_addon loaded_addon]
        GetSetting_result[of "''other''" example_ToString loaded_addon loaded_addon]
        GetSetting_result[of "[]" example_ToString loaded_addon loaded_addon]
        GetSetting_result[of "''k''" example_ToString failed_addon failed_addon]
  by (simp add: eval_simps loaded_addon_def failed_addon_def)

subsection \<open>C8: saving when the serialization fails\<close>

text \<open>
  C8.  When the store is loaded and \<open>SettingsToXML\<close> fails, \<open>SaveSettings\<close> returns with
  the user values file as it was and \<open>m_hasUserSettings\<close> set.  The events it adds to the
  trace are the two directory checks (each with the creation it may cause), the logged
  error, the notification of the add-on manager for this add-on id and instance id and, when
  \<open>HAS_PYTHON\<close> holds, the notification of the Python runtime; no file is saved.
\<close>

theorem SaveSettings_when_serialization_fails:
  assumes "HasSettingsToSave s" "SettingsToXML toXml s = Some (None, s5)"
  shows "\<exists>s'. SaveSettings HAS_PYTHON toXml s instanceId = Some s' \<and>
              userSettingsFile s' = userSettingsFile s \<and>
              m_hasUserSettings s' \<and>
              trace s' = trace s
                @ [DirectoryExists strRoot] @ (if rootDirectory s then [] else [DirectoryCreate strRoot])
                @ [DirectoryExists strAddon] @ (if addonDirectory s then [] else [DirectoryCreate strAddon])
                @ [LogError FailedToSave, AddonMgr_ReloadSettings (ID s) instanceId]
                @ (if HAS_PYTHON then [XBPython_OnSettingsChanged (ID s)] else [])"
proof -
  from assms(1) obtain st where st: "m_settings s = Some st" "IsLoaded st"
    by (auto simp: HasSettingsToSave_def SettingsLoaded_def split: option.splits)
  then have init: "IsInitialized st"
    by (simp add: IsLoaded_def IsInitialized_def)
  with assms(2) st have "Save toXml st = None"
    by (auto simp: SettingsToXML_def SettingsInitialized_def split: option.splits)
  with st init assms(1) show ?thesis
    by (simp add: SaveSettings_def SettingsToXML_def SettingsInitialized_def Let_def emit_def)
qed

text \<open>
  C8 at the loaded add-on, with a serializer that always fails, in a build with Python, for
  instance id 0.
\<close>

theorem SaveSettings_when_serialization_fails_witness:
  "HasSettingsToSave loaded_addon \<and>
   SettingsToXML (\<lambda>values. None) loaded_addon = Some (None, emit (LogError FailedToSave) loaded_addon) \<and>
   SaveSettings True (\<lambda>values. None) loaded_addon 0 =
     Some (loaded_addon\<lparr>m_hasUserSettings := True, rootDirectory := True, addonDirectory := True,
             trace := trace loaded_addon @
               [DirectoryExists strRoot, DirectoryCreate strRoot,
                DirectoryExists strAddon, DirectoryCreate strAddon,
                LogError FailedToSave,
                AddonMgr_ReloadSettings ''plugin.example'' 0,
                XBPython_OnSettingsChanged ''plugin.example'']\<rparr>)"
  using SaveSettings_when_serialization_fails[of loaded_addon "\<lambda>values. None"
          "emit (LogError FailedToSave) loaded_addon" True 0]
  by (simp add: eval_simps SaveSettings_def SettingsToXML_def HasSettingsToSave_def Save_def
        loaded_addon_def)

subsection \<open>C9: a reset keeps the failure flag\<close>

text \<open>
  C9.  After \<open>ResetSettings\<close> the settings are neither initialized nor loaded, and the failure
  flag is what it was.  So if the last load had failed, \<^verbatim>\<open>LoadSettings(false, ...)\<close> after the
  reset returns false and leaves the world, trace included, as it is: the schema file is not
  read again.
\<close>

theorem ResetSettings_keeps_failure:
  "\<not> SettingsInitialized (ResetSettings s) \<and> \<not> SettingsLoaded (ResetSettings s) \<and>
   m_loadSettingsFailed (ResetSettings s) = m_loadSettingsFailed s \<and>
   (m_loadSettingsFailed s \<longrightarrow>
      LoadSettings (ResetSettings s) False l = Some (False, ResetSettings s))"
  by (simp add: ResetSettings_def SettingsLoaded_def LoadSettings_failed)

text \<open>C9 at the add-on whose schema file could not be parsed.\<close>

theorem ResetSettings_keeps_failure_witness:
  "m_loadSettingsFailed failed_addon \<and>
   LoadSettings (ResetSettings failed_addon) False True = Some (False, ResetSettings failed_addon)"
  using ResetSettings_keeps_failure[of failed_addon True]
  by (simp add: failed_addon_def)

subsection \<open>C10: a failed load of user values clears the flag\<close>

text \<open>
  C10.  On an initialized store, whenever \<open>LoadUserSettings\<close> returns false,
  \<open>m_hasUserSettings\<close> is false afterwards and \<open>HasUserSettings\<close> returns false, whatever the
  flag was before; and a user values file that exists but cannot be parsed makes
  \<open>LoadUserSettings\<close> return false.
\<close>

theorem failed_LoadUserSettings_clears_flag:
  "(SettingsInitialized s \<longrightarrow> LoadUserSettings s = Some (False, s') \<longrightarrow>
      \<not> m_hasUserSettings s' \<and> HasUserSettings s' = Some (False, s')) \<and>
   (SettingsInitialized s \<longrightarrow> userSettingsFile s = Unparsable \<longrightarrow>
      (\<exists>s''. LoadUserSettings s = Some (False, s'') \<and> \<not> m_hasUserSettings s'' \<and>
             HasUserSettings s'' = Some (False, s'')))"
  using LoadUserSettings_false_flag[of s s']
  by (auto simp: HasUserSettings_initialized LoadUserSettings_Unparsable)

text \<open>
  C10 at the loaded add-on with \<open>m_hasUserSettings\<close> set, whose user values file has become
  unparsable.
\<close>

theorem failed_LoadUserSettings_clears_flag_witness:
  "SettingsInitialized (loaded_addon\<lparr>m_hasUserSettings := True, userSettingsFile := Unparsable\<rparr>) \<and>
   m_hasUserSettings (loaded_addon\<lparr>m_hasUserSettings := True, userSettingsFile := Unparsable\<rparr>) \<and>
   (\<exists>s'. LoadUserSettings (loaded_addon\<lparr>m_hasUserSettings := True, userSettingsFile := Unparsable\<rparr>) =
           Some (False, s') \<and>
         \<not> m_hasUserSettings s' \<and> HasUserSettings s' = Some (False, s'))"
  using failed_LoadUserSettings_clears_flag[of "loaded_addon\<lparr>m_hasUserSettings := True, userSettingsFile := Unparsable\<rparr>"]
  by (simp add: loaded_addon_def SettingsInitialized_def IsInitialized_def)

end
